theory Spec2Isabelle
  imports Complex_Main "HOL-Library.Sublist"
begin

section \<open>Strings\<close>

text \<open>
  A JavaScript string is modelled as a \<^typ>\<open>string\<close>, one \<^typ>\<open>char\<close> per code unit, so the
  model covers the strings whose code units are below 256. \<open>length\<close> is the \<open>.length\<close> of the
  source.
\<close>

text \<open>\<open>s.includes(sub)\<close>.\<close>

fun "includes" :: "string \<Rightarrow> string \<Rightarrow> bool" where
  "includes [] sub = (sub = [])"
| "includes (c # cs) sub = (prefix sub (c # cs) \<or> includes cs sub)"

text \<open>
  \<open>s.split(sep)\<close> for a separator that is not empty (both separators of the source are
  literals): \<open>acc\<close> holds, reversed, the characters of the part being read.
\<close>

fun split_from :: "string \<Rightarrow> string \<Rightarrow> string \<Rightarrow> string list" where
  "split_from sep acc [] = [rev acc]"
| "split_from sep acc (c # cs) =
     (if prefix sep (c # cs) then rev acc # split_from sep [] (drop (length sep - 1) cs)
      else split_from sep (c # acc) cs)"

definition split :: "string \<Rightarrow> string \<Rightarrow> string list" where
  "split s sep = split_from sep [] s"

text \<open>
  \<open>s.replace(pat, rep)\<close> with a string pattern that is not empty: only the first
  occurrence of \<open>pat\<close> is replaced.
\<close>

fun replace :: "string \<Rightarrow> string \<Rightarrow> string \<Rightarrow> string" where
  "replace [] pat rep = []"
| "replace (c # cs) pat rep =
     (if prefix pat (c # cs) then rep @ drop (length pat - 1) cs
      else c # replace cs pat rep)"

text \<open>\<open>xs.join(sep)\<close> on strings.\<close>

fun join :: "string list \<Rightarrow> string \<Rightarrow> string" where
  "join [] sep = []"
| "join [x] sep = x"
| "join (x # y # ys) sep = x @ sep @ join (y # ys) sep"

section \<open>Regular expressions\<close>

text \<open>
  The two patterns of the source are built from literals, character classes, sequence,
  alternation, an optional part, greedy repetition of a character class and capturing groups.
  Matching is the backtracking matcher of the language: a matcher takes the rest of the input
  and a continuation, and a greedy quantifier tries the longest repetition first. Capturing
  groups occur only outside alternations and optional parts in both patterns, so the captures
  are collected in order of appearance.
\<close>

datatype re =
    RLit string
  | RSet "char \<Rightarrow> bool"
  | RSeq re re
  | RAlt re re
  | ROpt re
  | RStar "char \<Rightarrow> bool"
  | RPlus "char \<Rightarrow> bool"
  | RRep nat "char \<Rightarrow> bool"
  | RGroup re

text \<open>
  Canonicalisation under the \<open>i\<close> flag: the letters a to z go to upper case. A code unit
  from 128 on never canonicalises to an ASCII character, and the literals of the patterns are
  ASCII.
\<close>

definition to_upper :: "char \<Rightarrow> char" where
  "to_upper c =
     (case map_of (zip ''abcdefghijklmnopqrstuvwxyz'' ''ABCDEFGHIJKLMNOPQRSTUVWXYZ'') c of
        Some u \<Rightarrow> u
      | None \<Rightarrow> c)"

definition canon :: "bool \<Rightarrow> char \<Rightarrow> char" where
  "canon ic c = (if ic then to_upper c else c)"

text \<open>A literal at the start of the input: the rest after it, or \<open>None\<close>.\<close>

fun lit_rest :: "bool \<Rightarrow> string \<Rightarrow> string \<Rightarrow> string option" where
  "lit_rest ic [] s = Some s"
| "lit_rest ic (p # ps) [] = None"
| "lit_rest ic (p # ps) (c # cs) =
     (if canon ic p = canon ic c then lit_rest ic ps cs else None)"

text \<open>\<open>greedy lo f d\<close> tries the counts \<open>lo + d\<close>, ..., \<open>lo\<close> in this order.\<close>

primrec greedy :: "nat \<Rightarrow> (nat \<Rightarrow> 'a option) \<Rightarrow> nat \<Rightarrow> 'a option" where
  "greedy lo f 0 = f lo"
| "greedy lo f (Suc d) =
     (case f (lo + Suc d) of Some x \<Rightarrow> Some x | None \<Rightarrow> greedy lo f d)"

type_synonym 'a cont = "string list \<Rightarrow> string \<Rightarrow> 'a option"

fun rmatch :: "bool \<Rightarrow> re \<Rightarrow> string \<Rightarrow> 'a cont \<Rightarrow> 'a option" where
  "rmatch ic (RLit l) s k =
     (case lit_rest ic l s of None \<Rightarrow> None | Some rest \<Rightarrow> k [] rest)"
| "rmatch ic (RSet p) s k =
     (case s of [] \<Rightarrow> None | c # cs \<Rightarrow> if p c then k [] cs else None)"
| "rmatch ic (RSeq a b) s k =
     rmatch ic a s (\<lambda>ca r. rmatch ic b r (\<lambda>cb r'. k (ca @ cb) r'))"
| "rmatch ic (RAlt a b) s k =
     (case rmatch ic a s k of Some x \<Rightarrow> Some x | None \<Rightarrow> rmatch ic b s k)"
| "rmatch ic (ROpt a) s k =
     (case rmatch ic a s k of Some x \<Rightarrow> Some x | None \<Rightarrow> k [] s)"
| "rmatch ic (RStar p) s k =
     greedy 0 (\<lambda>n. k [] (drop n s)) (length (takeWhile p s))"
| "rmatch ic (RPlus p) s k =
     (case takeWhile p s of
        [] \<Rightarrow> None
      | c # cs \<Rightarrow> greedy 1 (\<lambda>n. k [] (drop n s)) (length cs))"
| "rmatch ic (RRep n p) s k =
     (if n \<le> length s \<and> list_all p (take n s) then k [] (drop n s) else None)"
| "rmatch ic (RGroup a) s k =
     rmatch ic a s (\<lambda>ca r. k (take (length s - length r) s # ca) r)"

text \<open>
  One attempt at the start of \<open>s\<close>: the match array (the whole match, then the groups) and
  the rest of the input after the match.
\<close>

definition exec_at :: "bool \<Rightarrow> re \<Rightarrow> string \<Rightarrow> (string list \<times> string) option" where
  "exec_at ic r s =
     rmatch ic r s (\<lambda>caps rest. Some (take (length s - length rest) s # caps, rest))"

text \<open>\<open>s.match(r)\<close> for a pattern without the \<open>g\<close> flag: the leftmost match.\<close>

fun match :: "bool \<Rightarrow> re \<Rightarrow> string \<Rightarrow> string list option" where
  "match ic r [] = map_option fst (exec_at ic r [])"
| "match ic r (c # cs) =
     (case exec_at ic r (c # cs) of
        Some (arr, rest) \<Rightarrow> Some arr
      | None \<Rightarrow> match ic r cs)"

text \<open>
  \<open>[...s.matchAll(r)]\<close> for a pattern with the \<open>g\<close> flag: the matches from left to right,
  each search starting where the last match ended (one further after an empty match).
\<close>

function matchAll :: "bool \<Rightarrow> re \<Rightarrow> string \<Rightarrow> string list list" where
  "matchAll ic r s =
     (case exec_at ic r s of
        Some (arr, rest) \<Rightarrow>
          (if length rest < length s then arr # matchAll ic r rest
           else arr # (case s of [] \<Rightarrow> [] | c # cs \<Rightarrow> matchAll ic r cs))
      | None \<Rightarrow> (case s of [] \<Rightarrow> [] | c # cs \<Rightarrow> matchAll ic r cs))"
  by pat_completeness auto
termination
  by (relation "measure (\<lambda>(ic, r, s). length s)") auto

subsection \<open>The patterns of the source\<close>

text \<open>White space, \<open>\s\<close>: tab, line feed, vertical tab, form feed, carriage return, space, no-break space.\<close>

definition is_space :: "char \<Rightarrow> bool" where
  "is_space c = (c \<in> set [CHR 0x09, CHR 0x0A, CHR 0x0B, CHR 0x0C, CHR 0x0D, CHR 0x20, CHR 0xA0])"

text \<open>The dot: any character but a line terminator.\<close>

definition dot :: "char \<Rightarrow> bool" where
  "dot c = (c \<noteq> CHR 0x0A \<and> c \<noteq> CHR 0x0D)"

definition not_slash :: "char \<Rightarrow> bool" where
  "not_slash c = (c \<noteq> CHR ''/'')"

definition query_sep :: "char \<Rightarrow> bool" where
  "query_sep c = (c = CHR ''?'' \<or> c = CHR ''&'')"

text \<open>The class of the identifier, \<open>[^"&?\/\s]\<close>.\<close>

definition id_char :: "char \<Rightarrow> bool" where
  "id_char c = (c \<noteq> CHR 0x22 \<and> c \<noteq> CHR ''&'' \<and> c \<noteq> CHR ''?'' \<and> c \<noteq> CHR ''/'' \<and> \<not> is_space c)"

text \<open>
  \<^verbatim>\<open>/(?:youtube\.com\/(?:[^\/]+\/.+\/|(?:v|e(?:mbed)?|shorts)\/|.*[?&]v=)|youtu\.be\/)([^"&?\/\s]{11})/i\<close>
\<close>

definition RE_YOUTUBE :: re where
  "RE_YOUTUBE =
     RSeq
       (RAlt
          (RSeq (RLit ''youtube.com/'')
             (RAlt (RSeq (RPlus not_slash) (RSeq (RLit ''/'') (RSeq (RPlus dot) (RLit ''/''))))
                (RAlt
                   (RSeq (RAlt (RLit ''v'') (RAlt (RSeq (RLit ''e'') (ROpt (RLit ''mbed''))) (RLit ''shorts'')))
                      (RLit ''/''))
                   (RSeq (RStar dot) (RSeq (RSet query_sep) (RLit ''v=''))))))
          (RLit ''youtu.be/''))
       (RGroup (RRep 11 id_char))"

definition not_quote :: "char \<Rightarrow> bool" where
  "not_quote c = (c \<noteq> CHR 0x22)"

definition not_lt :: "char \<Rightarrow> bool" where
  "not_lt c = (c \<noteq> CHR ''<'')"

text \<open>\<^verbatim>\<open>/<text start="([^"]*)" dur="([^"]*)">([^<]*)<\/text>/g\<close>\<close>

definition RE_XML_TRANSCRIPT :: re where
  "RE_XML_TRANSCRIPT =
     RSeq (RLit (''<text start='' @ [CHR 0x22]))
       (RSeq (RGroup (RStar not_quote))
          (RSeq (RLit ([CHR 0x22] @ '' dur='' @ [CHR 0x22]))
             (RSeq (RGroup (RStar not_quote))
                (RSeq (RLit ([CHR 0x22] @ ''>''))
                   (RSeq (RGroup (RStar not_lt)) (RLit ''</text>''))))))"

declare matchAll.simps [simp del]

section \<open>Values\<close>

text \<open>
  A number of the language: not-a-number, the two infinities, or a finite number, which is
  kept exact; the rounding to a binary64 and the sign of zero are outside the model.
\<close>

datatype number = NaN | PosInfinity | NegInfinity | Finite rat

text \<open>A value delivered by \<open>JSON.parse\<close>. \<open>undefined\<close> is \<open>None\<close> of \<open>json option\<close>.\<close>

datatype json =
    JNull
  | JBool bool
  | JNum number
  | JStr string
  | JArr "json list"
  | JObj "(string \<times> json) list"

text \<open>Truthiness, the test of \<open>!v\<close> and \<open>v && ...\<close>.\<close>

fun truthy :: "json option \<Rightarrow> bool" where
  "truthy None = False"
| "truthy (Some JNull) = False"
| "truthy (Some (JBool b)) = b"
| "truthy (Some (JNum n)) = (n \<noteq> Finite 0 \<and> n \<noteq> NaN)"
| "truthy (Some (JStr s)) = (s \<noteq> [])"
| "truthy (Some (JArr xs)) = True"
| "truthy (Some (JObj kvs)) = True"

text \<open>
  \<open>v[key]\<close> for a value that is neither \<open>undefined\<close> nor \<open>null\<close> and a key that is a
  property name of the captions data: only an object can have it.
\<close>

fun get_prop :: "json \<Rightarrow> string \<Rightarrow> json option" where
  "get_prop (JObj kvs) key = map_of kvs key"
| "get_prop v key = None"

text \<open>\<open>v[0]\<close> for a value that is neither \<open>undefined\<close> nor \<open>null\<close>.\<close>

fun get_index0 :: "json \<Rightarrow> json option" where
  "get_index0 (JArr xs) = (case xs of [] \<Rightarrow> None | x # _ \<Rightarrow> Some x)"
| "get_index0 (JStr s) = (case s of [] \<Rightarrow> None | c # _ \<Rightarrow> Some (JStr [c]))"
| "get_index0 (JObj kvs) = map_of kvs ''0''"
| "get_index0 v = None"

section \<open>Errors\<close>

text \<open>The errors of the runtime, none of them a \<open>YoutubeTranscriptError\<close>.\<close>

datatype js_error = TypeError | SyntaxError | FetchFailed

text \<open>
  The error classes of the source with the arguments of their constructors, and the errors
  of the runtime. \<open>YoutubeTranscriptError\<close> is the base class, thrown as such by
  \<open>retrieveVideoId\<close>.
\<close>

datatype error =
    YoutubeTranscriptError string
  | YoutubeTranscriptTooManyRequestError
  | YoutubeTranscriptVideoUnavailableError string
  | YoutubeTranscriptDisabledError string
  | YoutubeTranscriptNotAvailableError string
  | YoutubeTranscriptNotAvailableLanguageError string "json option list" string
  | YoutubeTranscriptEmptyError string string
  | RuntimeError js_error

text \<open>\<open>e instanceof YoutubeTranscriptEmptyError\<close>.\<close>

fun is_EmptyError :: "error \<Rightarrow> bool" where
  "is_EmptyError (YoutubeTranscriptEmptyError videoId method) = True"
| "is_EmptyError e = False"

text \<open>\<open>e instanceof YoutubeTranscriptError\<close>: the error belongs to the taxonomy.\<close>

fun is_YoutubeTranscriptError :: "error \<Rightarrow> bool" where
  "is_YoutubeTranscriptError (RuntimeError e) = False"
| "is_YoutubeTranscriptError e = True"

text \<open>Reading a property of \<open>undefined\<close> or \<open>null\<close> throws a \<open>TypeError\<close>.\<close>

fun read_prop :: "json option \<Rightarrow> string \<Rightarrow> error + json option" where
  "read_prop None key = Inl (RuntimeError TypeError)"
| "read_prop (Some JNull) key = Inl (RuntimeError TypeError)"
| "read_prop (Some v) key = Inr (get_prop v key)"

fun read_index0 :: "json option \<Rightarrow> error + json option" where
  "read_index0 None = Inl (RuntimeError TypeError)"
| "read_index0 (Some JNull) = Inl (RuntimeError TypeError)"
| "read_index0 (Some v) = Inr (get_index0 v)"

text \<open>
  \<open>key in v\<close>: a \<open>TypeError\<close> unless \<open>v\<close> is an object or an array; an array has no
  property with the name of a captions field.
\<close>

fun in_op :: "string \<Rightarrow> json option \<Rightarrow> error + bool" where
  "in_op key (Some (JObj kvs)) = Inr (key \<in> set (map fst kvs))"
| "in_op key (Some (JArr xs)) = Inr False"
| "in_op key v = Inl (RuntimeError TypeError)"

text \<open>
  The receiver of \<open>.some\<close>, \<open>.map\<close> and \<open>.find\<close>: on anything but an array the call throws
  a \<open>TypeError\<close>.
\<close>

fun as_array :: "json option \<Rightarrow> error + json list" where
  "as_array (Some (JArr xs)) = Inr xs"
| "as_array v = Inl (RuntimeError TypeError)"

section \<open>The platform\<close>

datatype http_method = GET | POST

text \<open>
  A call of \<open>fetch\<close>: the first argument as the value it is, the headers in the order of the
  object literal, and for the body the value handed to \<open>JSON.stringify\<close>.
\<close>

record request =
  "method" :: http_method
  url :: "json option"
  headers :: "(string \<times> string) list"
  body :: "json option"

record response =
  ok :: bool
  content :: string

text \<open>
  What the source takes from its runtime: \<open>fetch\<close>, whose answer may depend on the requests
  made before (\<open>None\<close>: the promise is rejected), and \<open>JSON.parse\<close> (\<open>None\<close>: a
  \<open>SyntaxError\<close>).
\<close>

record platform =
  fetch :: "request list \<Rightarrow> request \<Rightarrow> response option"
  JSON_parse :: "string \<Rightarrow> json option"

section \<open>\<open>parseFloat\<close>\<close>

text \<open>
  \<open>parseFloat\<close> skips leading white space, takes the longest prefix that is a decimal
  literal (an optional sign, then \<open>Infinity\<close>, or digits with an optional fraction and an
  optional exponent) and returns its value, or \<open>NaN\<close> when there is no such prefix.
\<close>

definition is_digit :: "char \<Rightarrow> bool" where
  "is_digit c = (c \<in> set ''0123456789'')"

definition digit_value :: "char \<Rightarrow> nat" where
  "digit_value c = of_char c - 48"

definition digits_value :: "string \<Rightarrow> nat" where
  "digits_value ds = foldl (\<lambda>a c. 10 * a + digit_value c) 0 ds"

text \<open>The digits at the start of \<open>s\<close> as a number, if there is at least one.\<close>

definition leading_digits :: "string \<Rightarrow> int option" where
  "leading_digits s =
     (if takeWhile is_digit s = [] then None
      else Some (int (digits_value (takeWhile is_digit s))))"

text \<open>The exponent part at the start of \<open>s\<close>; 0 when there is none.\<close>

definition exponent :: "string \<Rightarrow> int" where
  "exponent s =
     (case s of
        [] \<Rightarrow> 0
      | c # r \<Rightarrow>
          if c = CHR ''e'' \<or> c = CHR ''E'' then
            (case r of
               [] \<Rightarrow> 0
             | d # r' \<Rightarrow>
                 if d = CHR ''+'' then (case leading_digits r' of None \<Rightarrow> 0 | Some n \<Rightarrow> n)
                 else if d = CHR ''-'' then (case leading_digits r' of None \<Rightarrow> 0 | Some n \<Rightarrow> - n)
                 else (case leading_digits r of None \<Rightarrow> 0 | Some n \<Rightarrow> n))
          else 0)"

definition scale :: "rat \<Rightarrow> int \<Rightarrow> rat" where
  "scale m e = (if 0 \<le> e then m * 10 ^ nat e else m / 10 ^ nat (- e))"

definition unsigned_literal :: "string \<Rightarrow> number option" where
  "unsigned_literal s =
     (if prefix ''Infinity'' s then Some PosInfinity
      else
        let ip = takeWhile is_digit s; r1 = dropWhile is_digit s
        in (case r1 of
              [] \<Rightarrow> if ip = [] then None else Some (Finite (of_nat (digits_value ip)))
            | c # r2 \<Rightarrow>
                if c = CHR ''.'' then
                  (let fp = takeWhile is_digit r2; r3 = dropWhile is_digit r2
                   in if ip = [] \<and> fp = [] then None
                      else Some (Finite (scale (of_nat (digits_value (ip @ fp)) / 10 ^ length fp)
                                          (exponent r3))))
                else if ip = [] then None
                else Some (Finite (scale (of_nat (digits_value ip)) (exponent r1)))))"

fun negate :: "number \<Rightarrow> number" where
  "negate NaN = NaN"
| "negate PosInfinity = NegInfinity"
| "negate NegInfinity = PosInfinity"
| "negate (Finite q) = Finite (- q)"

definition parseFloat :: "string \<Rightarrow> number" where
  "parseFloat s =
     (case dropWhile is_space s of
        [] \<Rightarrow> NaN
      | c # r \<Rightarrow>
          if c = CHR ''+'' then (case unsigned_literal r of None \<Rightarrow> NaN | Some n \<Rightarrow> n)
          else if c = CHR ''-'' then (case unsigned_literal r of None \<Rightarrow> NaN | Some n \<Rightarrow> negate n)
          else (case unsigned_literal (c # r) of None \<Rightarrow> NaN | Some n \<Rightarrow> n))"

section \<open>The data of the source\<close>

record TranscriptConfig =
  lang :: "string option"

text \<open>\<open>config?.lang\<close>.\<close>

definition config_lang :: "TranscriptConfig option \<Rightarrow> string option" where
  "config_lang config = (case config of None \<Rightarrow> None | Some c \<Rightarrow> TranscriptConfig.lang c)"

text \<open>
  A segment. \<open>lang\<close> is declared a string; at run time it holds the requested language or
  whatever value the first track has as its \<open>languageCode\<close>.
\<close>

record TranscriptResponse =
  "text" :: string
  duration :: number
  offset :: number
  lang :: "json option"

definition QUOTE :: string where
  "QUOTE = [CHR 0x22]"

definition USER_AGENT :: string where
  "USER_AGENT = ''Mozilla/5.0 (Macintosh; Intel Mac OS X 10_15_4) AppleWebKit/537.36 (KHTML, like Gecko) Chrome/85.0.4183.83 Safari/537.36,gzip(gfe)''"

subsection \<open>Messages\<close>

text \<open>The conversion of a value to a string, as \<open>join\<close> and the template literals do it.\<close>

fun to_string :: "(number \<Rightarrow> string) \<Rightarrow> json \<Rightarrow> string" where
  "to_string ns JNull = ''null''"
| "to_string ns (JBool b) = (if b then ''true'' else ''false'')"
| "to_string ns (JNum n) = ns n"
| "to_string ns (JStr s) = s"
| "to_string ns (JArr xs) = join (map (\<lambda>x. if x = JNull then [] else to_string ns x) xs) '',''"
| "to_string ns (JObj kvs) = ''[object Object]''"

text \<open>An element of an array under \<open>join\<close>: \<open>undefined\<close> and \<open>null\<close> give the empty string.\<close>

definition join_element :: "(number \<Rightarrow> string) \<Rightarrow> json option \<Rightarrow> string" where
  "join_element ns v =
     (case v of None \<Rightarrow> [] | Some x \<Rightarrow> if x = JNull then [] else to_string ns x)"

text \<open>The siren of the message prefix, written as its UTF-8 bytes.\<close>

definition SIREN :: string where
  "SIREN = [CHR 0xF0, CHR 0x9F, CHR 0x9A, CHR 0xA8]"

text \<open>The constructor of the base class.\<close>

definition base_message :: "string \<Rightarrow> string" where
  "base_message m = ''[YoutubeTranscript] '' @ SIREN @ '' '' @ m"

text \<open>
  The message each error class builds in its constructor, given the conversion \<open>ns\<close> of a
  number to a string; the messages of the runtime's own errors are not modelled.
\<close>

fun message :: "(number \<Rightarrow> string) \<Rightarrow> error \<Rightarrow> string option" where
  "message ns (YoutubeTranscriptError m) = Some (base_message m)"
| "message ns YoutubeTranscriptTooManyRequestError =
     Some (base_message
       ''YouTube is receiving too many requests from this IP and now requires solving a captcha to continue'')"
| "message ns (YoutubeTranscriptVideoUnavailableError videoId) =
     Some (base_message (''The video is no longer available ('' @ videoId @ '')''))"
| "message ns (YoutubeTranscriptDisabledError videoId) =
     Some (base_message (''Transcript is disabled on this video ('' @ videoId @ '')''))"
| "message ns (YoutubeTranscriptNotAvailableError videoId) =
     Some (base_message (''No transcripts are available for this video ('' @ videoId @ '')''))"
| "message ns (YoutubeTranscriptNotAvailableLanguageError l availableLangs videoId) =
     Some (base_message
       (''No transcripts are available in '' @ l @ '' this video ('' @ videoId
        @ ''). Available languages: ''
        @ join (map (join_element ns) availableLangs) '', ''))"
| "message ns (YoutubeTranscriptEmptyError videoId m) =
     Some (base_message
       (''The transcript file URL returns an empty response using '' @ m @ '' ('' @ videoId @ '')''))"
| "message ns (RuntimeError e) = None"

section \<open>The operations\<close>

subsection \<open>\<open>retrieveVideoId\<close>\<close>

definition retrieveVideoId :: "string \<Rightarrow> error + string" where
  "retrieveVideoId videoId =
     (if length videoId = 11 then Inr videoId
      else
        (case match True RE_YOUTUBE videoId of
           Some matchId \<Rightarrow>
             if matchId \<noteq> [] then Inr (matchId ! 1)
             else Inl (YoutubeTranscriptError ''Impossible to retrieve Youtube video ID.'')
         | None \<Rightarrow> Inl (YoutubeTranscriptError ''Impossible to retrieve Youtube video ID.'')))"

subsection \<open>Array methods with a callback that may throw\<close>

fun array_some :: "('a \<Rightarrow> error + bool) \<Rightarrow> 'a list \<Rightarrow> error + bool" where
  "array_some f [] = Inr False"
| "array_some f (x # xs) =
     (case f x of Inl e \<Rightarrow> Inl e | Inr b \<Rightarrow> if b then Inr True else array_some f xs)"

fun array_find :: "('a \<Rightarrow> error + bool) \<Rightarrow> 'a list \<Rightarrow> error + 'a option" where
  "array_find f [] = Inr None"
| "array_find f (x # xs) =
     (case f x of Inl e \<Rightarrow> Inl e | Inr b \<Rightarrow> if b then Inr (Some x) else array_find f xs)"

fun array_map :: "('a \<Rightarrow> error + 'b) \<Rightarrow> 'a list \<Rightarrow> error + 'b list" where
  "array_map f [] = Inr []"
| "array_map f (x # xs) =
     (case f x of
        Inl e \<Rightarrow> Inl e
      | Inr y \<Rightarrow> (case array_map f xs of Inl e \<Rightarrow> Inl e | Inr ys \<Rightarrow> Inr (y # ys)))"

subsection \<open>\<open>processTranscriptFromCaptions\<close>\<close>

text \<open>
  \<open>config?.lang\<close> as a condition: true when the language is a string that is not empty.
\<close>

definition lang_given :: "TranscriptConfig option \<Rightarrow> bool" where
  "lang_given config = truthy (map_option JStr (config_lang config))"

text \<open>The spread \<open>...(config?.lang && { 'Accept-Language': config.lang })\<close>.\<close>

definition lang_header :: "TranscriptConfig option \<Rightarrow> (string \<times> string) list" where
  "lang_header config =
     (case config_lang config of
        None \<Rightarrow> []
      | Some l \<Rightarrow> if lang_given config then [(''Accept-Language'', l)] else [])"

text \<open>The callback \<open>(track) => track.languageCode === config?.lang\<close>.\<close>

definition languageCode_is :: "string option \<Rightarrow> json \<Rightarrow> error + bool" where
  "languageCode_is l track =
     (case read_prop (Some track) ''languageCode'' of
        Inl e \<Rightarrow> Inl e
      | Inr v \<Rightarrow> Inr (v = map_option JStr l))"

text \<open>The callback \<open>(track) => track.languageCode\<close>.\<close>

definition languageCode_of :: "json \<Rightarrow> error + json option" where
  "languageCode_of track = read_prop (Some track) ''languageCode''"

text \<open>The statement that throws when the requested language has no track.\<close>

definition check_language :: "json option \<Rightarrow> string \<Rightarrow> TranscriptConfig option \<Rightarrow> error + unit" where
  "check_language captions videoId config =
     (case config_lang config of
        None \<Rightarrow> Inr ()
      | Some l \<Rightarrow>
          if lang_given config then
            (case read_prop captions ''captionTracks'' of
               Inl e \<Rightarrow> Inl e
             | Inr tracks \<Rightarrow>
                 (case as_array tracks of
                    Inl e \<Rightarrow> Inl e
                  | Inr ts \<Rightarrow>
                      (case array_some (languageCode_is (config_lang config)) ts of
                         Inl e \<Rightarrow> Inl e
                       | Inr found \<Rightarrow>
                           if \<not> found then
                             (case array_map languageCode_of ts of
                                Inl e \<Rightarrow> Inl e
                              | Inr codes \<Rightarrow>
                                  Inl (YoutubeTranscriptNotAvailableLanguageError l codes videoId))
                           else Inr ())))
          else Inr ())"

text \<open>The track chosen by the conditional expression, \<open>undefined\<close> when there is none.\<close>

definition selected_track :: "json option \<Rightarrow> TranscriptConfig option \<Rightarrow> error + json option" where
  "selected_track captions config =
     (case read_prop captions ''captionTracks'' of
        Inl e \<Rightarrow> Inl e
      | Inr tracks \<Rightarrow>
          if lang_given config then
            (case as_array tracks of
               Inl e \<Rightarrow> Inl e
             | Inr ts \<Rightarrow> array_find (languageCode_is (config_lang config)) ts)
          else read_index0 tracks)"

definition transcriptURL :: "json option \<Rightarrow> TranscriptConfig option \<Rightarrow> error + json option" where
  "transcriptURL captions config =
     (case selected_track captions config of
        Inl e \<Rightarrow> Inl e
      | Inr track \<Rightarrow> read_prop track ''baseUrl'')"

text \<open>\<open>config?.lang ?? captions.captionTracks[0].languageCode\<close>.\<close>

definition segment_lang :: "json option \<Rightarrow> TranscriptConfig option \<Rightarrow> error + json option" where
  "segment_lang captions config =
     (case config_lang config of
        Some l \<Rightarrow> Inr (Some (JStr l))
      | None \<Rightarrow>
          (case read_prop captions ''captionTracks'' of
             Inl e \<Rightarrow> Inl e
           | Inr tracks \<Rightarrow>
               (case read_index0 tracks of
                  Inl e \<Rightarrow> Inl e
                | Inr track \<Rightarrow> read_prop track ''languageCode'')))"

text \<open>
  The matches of the pattern in the body, each mapped to a segment. The callback of \<open>map\<close>
  evaluates the language for each match, so with no match it is not evaluated at all.
\<close>

definition segments :: "json option \<Rightarrow> TranscriptConfig option \<Rightarrow> string \<Rightarrow> error + TranscriptResponse list" where
  "segments captions config transcriptBody =
     (let results = matchAll False RE_XML_TRANSCRIPT transcriptBody
      in if results = [] then Inr []
         else
           (case segment_lang captions config of
              Inl e \<Rightarrow> Inl e
            | Inr l \<Rightarrow>
                Inr (map (\<lambda>result.
                       \<lparr>text = result ! 3,
                        duration = parseFloat (result ! 2),
                        offset = parseFloat (result ! 1),
                        lang = l\<rparr>) results)))"

definition transcript_request :: "json option \<Rightarrow> TranscriptConfig option \<Rightarrow> request" where
  "transcript_request u config =
     \<lparr>method = GET, url = u,
      headers = lang_header config @ [(''User-Agent'', USER_AGENT)],
      body = None\<rparr>"

text \<open>
  Every operation that calls \<open>fetch\<close> takes the list of the requests made so far and returns
  it extended by its own requests.
\<close>

definition processTranscriptFromCaptions ::
  "platform \<Rightarrow> json option \<Rightarrow> string \<Rightarrow> TranscriptConfig option \<Rightarrow> request list
     \<Rightarrow> (error + TranscriptResponse list) \<times> request list" where
  "processTranscriptFromCaptions P captions videoId config sent =
     (if \<not> truthy captions then (Inl (YoutubeTranscriptDisabledError videoId), sent)
      else
        (case in_op ''captionTracks'' captions of
           Inl e \<Rightarrow> (Inl e, sent)
         | Inr present \<Rightarrow>
             if \<not> present then (Inl (YoutubeTranscriptNotAvailableError videoId), sent)
             else
               (case check_language captions videoId config of
                  Inl e \<Rightarrow> (Inl e, sent)
                | Inr _ \<Rightarrow>
                    (case transcriptURL captions config of
                       Inl e \<Rightarrow> (Inl e, sent)
                     | Inr u \<Rightarrow>
                         (case fetch P sent (transcript_request u config) of
                            None \<Rightarrow>
                              (Inl (RuntimeError FetchFailed), sent @ [transcript_request u config])
                          | Some transcriptResponse \<Rightarrow>
                              if \<not> ok transcriptResponse then
                                (Inl (YoutubeTranscriptNotAvailableError videoId),
                                 sent @ [transcript_request u config])
                              else
                                (segments captions config (content transcriptResponse),
                                 sent @ [transcript_request u config]))))))"

subsection \<open>\<open>fetchTranscriptWithHtmlScraping\<close>\<close>

definition CAPTIONS_MARKER :: string where
  "CAPTIONS_MARKER = QUOTE @ ''captions'' @ QUOTE @ '':''"

definition RECAPTCHA_MARKER :: string where
  "RECAPTCHA_MARKER = ''class='' @ QUOTE @ ''g-recaptcha'' @ QUOTE"

definition PLAYABILITY_MARKER :: string where
  "PLAYABILITY_MARKER = QUOTE @ ''playabilityStatus'' @ QUOTE @ '':''"

definition VIDEO_DETAILS_MARKER :: string where
  "VIDEO_DETAILS_MARKER = '','' @ QUOTE @ ''videoDetails''"

definition NEWLINE :: string where
  "NEWLINE = [CHR 0x0A]"

definition watch_url :: "string \<Rightarrow> string" where
  "watch_url identifier = ''https://www.youtube.com/watch?v='' @ identifier"

definition watch_request :: "string \<Rightarrow> TranscriptConfig option \<Rightarrow> request" where
  "watch_request identifier config =
     \<lparr>method = GET, url = Some (JStr (watch_url identifier)),
      headers = lang_header config @ [(''User-Agent'', USER_AGENT)],
      body = None\<rparr>"

text \<open>The error thrown when the split on the captions marker gives at most one part.\<close>

definition classify_failure :: "string \<Rightarrow> string \<Rightarrow> error" where
  "classify_failure videoPageBody videoId =
     (if includes videoPageBody RECAPTCHA_MARKER then YoutubeTranscriptTooManyRequestError
      else if \<not> includes videoPageBody PLAYABILITY_MARKER then
        YoutubeTranscriptVideoUnavailableError videoId
      else YoutubeTranscriptDisabledError videoId)"

text \<open>The argument of \<open>JSON.parse\<close>, from the parts of the split.\<close>

definition captions_json_text :: "string list \<Rightarrow> string" where
  "captions_json_text splittedHTML =
     replace (split (splittedHTML ! 1) VIDEO_DETAILS_MARKER ! 0) NEWLINE []"

text \<open>
  The captions value: \<open>JSON.parse\<close> in a \<open>try\<close> whose \<open>catch\<close> returns \<open>undefined\<close>, then the
  optional chaining \<open>?.['playerCaptionsTracklistRenderer']\<close>.
\<close>

definition html_captions :: "platform \<Rightarrow> string list \<Rightarrow> json option" where
  "html_captions P splittedHTML =
     (case JSON_parse P (captions_json_text splittedHTML) of
        None \<Rightarrow> None
      | Some v \<Rightarrow> if v = JNull then None else get_prop v ''playerCaptionsTracklistRenderer'')"

text \<open>The check of both strategies on what the processor returned.\<close>

definition nonempty_or ::
  "error \<Rightarrow> (error + TranscriptResponse list) \<times> request list
     \<Rightarrow> (error + TranscriptResponse list) \<times> request list" where
  "nonempty_or empty_error processed =
     (case processed of
        (Inl e, sent) \<Rightarrow> (Inl e, sent)
      | (Inr processedTranscript, sent) \<Rightarrow>
          if processedTranscript = [] then (Inl empty_error, sent)
          else (Inr processedTranscript, sent))"

definition fetchTranscriptWithHtmlScraping ::
  "platform \<Rightarrow> string \<Rightarrow> TranscriptConfig option \<Rightarrow> request list
     \<Rightarrow> (error + TranscriptResponse list) \<times> request list" where
  "fetchTranscriptWithHtmlScraping P videoId config sent =
     (case retrieveVideoId videoId of
        Inl e \<Rightarrow> (Inl e, sent)
      | Inr identifier \<Rightarrow>
          (case fetch P sent (watch_request identifier config) of
             None \<Rightarrow> (Inl (RuntimeError FetchFailed), sent @ [watch_request identifier config])
           | Some videoPageResponse \<Rightarrow>
               (let videoPageBody = content videoPageResponse;
                    splittedHTML = split videoPageBody CAPTIONS_MARKER
                in if length splittedHTML \<le> 1 then
                     (Inl (classify_failure videoPageBody videoId),
                      sent @ [watch_request identifier config])
                   else
                     nonempty_or (YoutubeTranscriptEmptyError videoId ''HTML scraping'')
                       (processTranscriptFromCaptions P (html_captions P splittedHTML)
                          videoId config (sent @ [watch_request identifier config])))))"

subsection \<open>\<open>fetchTranscriptWithInnerTube\<close>\<close>

definition INNERTUBE_URL :: string where
  "INNERTUBE_URL = ''https://www.youtube.com/youtubei/v1/player''"

definition innertube_request :: "string \<Rightarrow> TranscriptConfig option \<Rightarrow> request" where
  "innertube_request identifier config =
     \<lparr>method = POST, url = Some (JStr INNERTUBE_URL),
      headers = lang_header config
        @ [(''Content-Type'', ''application/json''),
           (''Origin'', ''https://www.youtube.com''),
           (''Referer'', watch_url identifier)],
      body = Some (JObj
        [(''context'', JObj [(''client'', JObj
            [(''clientName'', JStr ''WEB''),
             (''clientVersion'', JStr ''2.20250312.04.00''),
             (''userAgent'', JStr USER_AGENT)])]),
         (''videoId'', JStr identifier)])\<rparr>"

text \<open>
  \<open>const { captions: { playerCaptionsTracklistRenderer: captions } } = await response.json()\<close>:
  the body is parsed, and each level of the pattern reads a property of a value that must be
  neither \<open>undefined\<close> nor \<open>null\<close>.
\<close>

definition innertube_captions :: "platform \<Rightarrow> response \<Rightarrow> error + json option" where
  "innertube_captions P InnerTubeApiResponse =
     (case JSON_parse P (content InnerTubeApiResponse) of
        None \<Rightarrow> Inl (RuntimeError SyntaxError)
      | Some v \<Rightarrow>
          (case read_prop (Some v) ''captions'' of
             Inl e \<Rightarrow> Inl e
           | Inr c \<Rightarrow> read_prop c ''playerCaptionsTracklistRenderer''))"

definition fetchTranscriptWithInnerTube ::
  "platform \<Rightarrow> string \<Rightarrow> TranscriptConfig option \<Rightarrow> request list
     \<Rightarrow> (error + TranscriptResponse list) \<times> request list" where
  "fetchTranscriptWithInnerTube P videoId config sent =
     (case retrieveVideoId videoId of
        Inl e \<Rightarrow> (Inl e, sent)
      | Inr identifier \<Rightarrow>
          (case fetch P sent (innertube_request identifier config) of
             None \<Rightarrow> (Inl (RuntimeError FetchFailed), sent @ [innertube_request identifier config])
           | Some InnerTubeApiResponse \<Rightarrow>
               (case innertube_captions P InnerTubeApiResponse of
                  Inl e \<Rightarrow> (Inl e, sent @ [innertube_request identifier config])
                | Inr captions \<Rightarrow>
                    nonempty_or (YoutubeTranscriptEmptyError videoId ''InnerTube API'')
                      (processTranscriptFromCaptions P captions videoId config
                         (sent @ [innertube_request identifier config])))))"

subsection \<open>\<open>fetchTranscript\<close>\<close>

definition fetchTranscript ::
  "platform \<Rightarrow> string \<Rightarrow> TranscriptConfig option \<Rightarrow> request list
     \<Rightarrow> (error + TranscriptResponse list) \<times> request list" where
  "fetchTranscript P videoId config sent =
     (case fetchTranscriptWithHtmlScraping P videoId config sent of
        (Inr r, sent') \<Rightarrow> (Inr r, sent')
      | (Inl e, sent') \<Rightarrow>
          if is_EmptyError e then fetchTranscriptWithInnerTube P videoId config sent'
          else (Inl e, sent'))"

section \<open>Example inputs\<close>

text \<open>A string between double quotes.\<close>

definition quoted :: "string \<Rightarrow> string" where
  "quoted s = QUOTE @ s @ QUOTE"

text \<open>The element \<^verbatim>\<open><text start="S" dur="D">TEXT</text>\<close> of a timed-text body.\<close>

definition text_element :: "string \<Rightarrow> string \<Rightarrow> string \<Rightarrow> string" where
  "text_element s d t =
     ''<text start='' @ quoted s @ '' dur='' @ quoted d @ ''>'' @ t @ ''</text>''"

definition track :: "string \<Rightarrow> string \<Rightarrow> json" where
  "track code u = JObj [(''languageCode'', JStr code), (''baseUrl'', JStr u)]"

definition track_text :: "string \<Rightarrow> string \<Rightarrow> string" where
  "track_text code u =
     ''{'' @ quoted ''languageCode'' @ '':'' @ quoted code @ '','' @ quoted ''baseUrl'' @ '':''
     @ quoted u @ ''}''"

text \<open>A captions structure with an English and a French track, and its JSON text.\<close>

definition example_renderer :: "string \<Rightarrow> string \<Rightarrow> json" where
  "example_renderer urlA urlB = JObj [(''captionTracks'', JArr [track ''en'' urlA, track ''fr'' urlB])]"

definition example_captions :: "string \<Rightarrow> string \<Rightarrow> json" where
  "example_captions urlA urlB = JObj [(''playerCaptionsTracklistRenderer'', example_renderer urlA urlB)]"

definition example_captions_text :: "string \<Rightarrow> string \<Rightarrow> string" where
  "example_captions_text urlA urlB =
     ''{'' @ quoted ''playerCaptionsTracklistRenderer'' @ '':{'' @ quoted ''captionTracks'' @ '':[''
     @ track_text ''en'' urlA @ '','' @ track_text ''fr'' urlB @ '']}}''"

text \<open>A watch page that embeds the captions, and the answer of the player API with them.\<close>

definition example_page :: string where
  "example_page =
     ''<html>'' @ CAPTIONS_MARKER @ example_captions_text ''urlA'' ''urlB'' @ VIDEO_DETAILS_MARKER
     @ QUOTE @ '':{}</html>''"

definition example_api :: string where
  "example_api = ''{'' @ quoted ''captions'' @ '':'' @ example_captions_text ''urlC'' ''urlD'' @ ''}''"

text \<open>\<open>JSON.parse\<close> on the texts of the examples.\<close>

definition example_parse :: "string \<Rightarrow> json option" where
  "example_parse s =
     (if s = example_captions_text ''urlA'' ''urlB'' then Some (example_captions ''urlA'' ''urlB'')
      else if s = example_api then Some (JObj [(''captions'', example_captions ''urlC'' ''urlD'')])
      else if s = ''{}'' then Some (JObj [])
      else None)"

definition example_id :: string where
  "example_id = ''dQw4w9WgXcQ''"

text \<open>
  A platform that answers the watch page of \<open>example_id\<close> with \<open>page\<close>, the player API with
  \<open>api\<close> and the track at \<open>u\<close> with \<open>tracks u\<close> (a status that is not a success when there is
  no such track), and rejects any other request.
\<close>

definition example_fetch ::
  "string \<Rightarrow> string \<Rightarrow> (string \<Rightarrow> string option) \<Rightarrow> request list \<Rightarrow> request \<Rightarrow> response option" where
  "example_fetch page api tracks sent req =
     (if method req = POST then
        (if url req = Some (JStr INNERTUBE_URL) then Some \<lparr>ok = True, content = api\<rparr> else None)
      else if url req = Some (JStr (watch_url example_id)) then Some \<lparr>ok = True, content = page\<rparr>
      else
        (case url req of
           Some (JStr u) \<Rightarrow>
             (case tracks u of
                Some b \<Rightarrow> Some \<lparr>ok = True, content = b\<rparr>
              | None \<Rightarrow> Some \<lparr>ok = False, content = []\<rparr>)
         | _ \<Rightarrow> None))"

definition example_platform :: "string \<Rightarrow> string \<Rightarrow> (string \<Rightarrow> string option) \<Rightarrow> platform" where
  "example_platform page api tracks =
     \<lparr>fetch = example_fetch page api tracks, JSON_parse = example_parse\<rparr>"

text \<open>The timed-text body of two segments.\<close>

definition example_body :: string where
  "example_body = text_element ''1.5'' ''2.0'' ''Hello'' @ text_element ''3.5'' ''1.0'' ''World''"

section \<open>Numeric strings\<close>






section \<open>Patterns without groups\<close>


section \<open>Properties\<close>

subsection \<open>The result is never empty\<close>

lemma nonempty_or_not_empty: "fst (nonempty_or e p) \<noteq> Inr []"
  by (auto simp: nonempty_or_def split: prod.splits sum.splits)

lemma nonempty_or_empty: "nonempty_or e (Inr [], sent) = (Inl e, sent)"
  by (simp add: nonempty_or_def)

lemma html_not_empty: "fst (fetchTranscriptWithHtmlScraping P videoId config sent) \<noteq> Inr []"
  by (auto simp: fetchTranscriptWithHtmlScraping_def Let_def nonempty_or_not_empty split: sum.splits option.splits)

lemma innertube_not_empty: "fst (fetchTranscriptWithInnerTube P videoId config sent) \<noteq> Inr []"
  by (auto simp: fetchTranscriptWithInnerTube_def Let_def nonempty_or_not_empty split: sum.splits option.splits)

lemma fetchTranscript_not_empty: "fst (fetchTranscript P videoId config sent) \<noteq> Inr []"
proof -
  obtain r sent' where h: "fetchTranscriptWithHtmlScraping P videoId config sent = (r, sent')"
    by (cases "fetchTranscriptWithHtmlScraping P videoId config sent")
  have r: "r \<noteq> Inr []" using html_not_empty [of P videoId config sent] h by simp
  show ?thesis
  proof (cases r)
    case (Inl e)
    then show ?thesis using h innertube_not_empty [of P videoId config sent']
      by (simp add: fetchTranscript_def)
  next
    case (Inr ts)
    then show ?thesis using h r by (simp add: fetchTranscript_def)
  qed
qed

lemma process_sent:
  "processTranscriptFromCaptions P captions videoId config sent = (r, sent') \<Longrightarrow>
     sent' = sent \<or> (\<exists>u. sent' = sent @ [transcript_request u config])"
  by (auto simp: processTranscriptFromCaptions_def split: if_splits sum.splits option.splits)

lemma nonempty_or_sent: "snd (nonempty_or e p) = snd p"
  by (auto simp: nonempty_or_def split: prod.splits sum.splits)

lemma html_sent:
  assumes "fetchTranscriptWithHtmlScraping P videoId config sent = (r, sent')"
  shows "(sent' = sent \<and> (\<exists>e. retrieveVideoId videoId = Inl e \<and> r = Inl e)) \<or>
     (\<exists>ident. retrieveVideoId videoId = Inr ident \<and>
        (sent' = sent @ [watch_request ident config] \<or>
         (\<exists>u. sent' = sent @ [watch_request ident config, transcript_request u config])))"
proof (cases "retrieveVideoId videoId")
  case (Inl e)
  then show ?thesis using assms by (simp add: fetchTranscriptWithHtmlScraping_def)
next
  case (Inr ident)
  show ?thesis
  proof (cases "fetch P sent (watch_request ident config)")
    case None
    then show ?thesis using assms Inr by (auto simp: fetchTranscriptWithHtmlScraping_def)
  next
    case (Some resp)
    show ?thesis
    proof (cases "length (split (content resp) CAPTIONS_MARKER) \<le> 1")
      case True
      then show ?thesis using assms Inr Some by (auto simp: fetchTranscriptWithHtmlScraping_def Let_def)
    next
      case False
      obtain r1 s1 where p: "processTranscriptFromCaptions P (html_captions P (split (content resp) CAPTIONS_MARKER))
          videoId config (sent @ [watch_request ident config]) = (r1, s1)"
        by (cases "processTranscriptFromCaptions P (html_captions P (split (content resp) CAPTIONS_MARKER))
          videoId config (sent @ [watch_request ident config])")
      have "sent' = s1" using assms Inr Some False p nonempty_or_sent [of "YoutubeTranscriptEmptyError videoId ''HTML scraping''" "(r1, s1)"]
        by (simp add: fetchTranscriptWithHtmlScraping_def Let_def)
      then show ?thesis using process_sent [OF p] Inr by auto
    qed
  qed
qed

lemma method_watch_request: "method (watch_request i c) = GET"
  by (simp add: watch_request_def)
lemma method_transcript_request: "method (transcript_request u c) = GET"
  by (simp add: transcript_request_def)
lemma method_innertube_request: "method (innertube_request i c) = POST"
  by (simp add: innertube_request_def)

lemma html_only_get:
  assumes "fetchTranscriptWithHtmlScraping P videoId config sent = (r, sent')"
  shows "\<forall>q \<in> set (drop (length sent) sent'). method q = GET"
  using html_sent [OF assms] by (auto simp: method_watch_request method_transcript_request)

lemma split_from_nonempty: "split_from sep acc s \<noteq> []"
  by (induction s arbitrary: acc) auto

lemma split_from_length_le1:
  "sep \<noteq> [] \<Longrightarrow> (length (split_from sep acc s) \<le> 1) = (\<not> includes s sep)"
proof (induction s arbitrary: acc)
  case Nil
  then show ?case by simp
next
  case (Cons c cs)
  show ?case
  proof (cases "prefix sep (c # cs)")
    case True
    then show ?thesis by (simp add: split_from_nonempty)
  next
    case False
    then show ?thesis using Cons by simp
  qed
qed

lemma split_length_le1: "sep \<noteq> [] \<Longrightarrow> (length (split s sep) \<le> 1) = (\<not> includes s sep)"
  unfolding split_def by (rule split_from_length_le1)

lemma CAPTIONS_MARKER_nonempty: "CAPTIONS_MARKER \<noteq> []"
  by (simp add: CAPTIONS_MARKER_def QUOTE_def)

text \<open>
  C2. \<open>fetchTranscript\<close> never returns an empty sequence, and neither strategy does: when
  the processor of a strategy produces zero segments, the strategy fails with the
  \<open>YoutubeTranscriptEmptyError\<close> of that strategy.
\<close>

theorem fetchTranscript_never_empty:
  "fst (fetchTranscript P videoId config sent) \<noteq> Inr []
   \<and> fst (fetchTranscriptWithHtmlScraping P videoId config sent) \<noteq> Inr []
   \<and> fst (fetchTranscriptWithInnerTube P videoId config sent) \<noteq> Inr []
   \<and> (retrieveVideoId videoId = Inr ident
        \<and> fetch P sent (watch_request ident config) = Some page
        \<and> 1 < length (split (content page) CAPTIONS_MARKER)
        \<and> processTranscriptFromCaptions P (html_captions P (split (content page) CAPTIONS_MARKER))
              videoId config (sent @ [watch_request ident config]) = (Inr [], sent')
      \<longrightarrow> fetchTranscriptWithHtmlScraping P videoId config sent
            = (Inl (YoutubeTranscriptEmptyError videoId ''HTML scraping''), sent'))
   \<and> (retrieveVideoId videoId = Inr ident
        \<and> fetch P sent (innertube_request ident config) = Some api
        \<and> innertube_captions P api = Inr captions
        \<and> processTranscriptFromCaptions P captions videoId config
              (sent @ [innertube_request ident config]) = (Inr [], sent'')
      \<longrightarrow> fetchTranscriptWithInnerTube P videoId config sent
            = (Inl (YoutubeTranscriptEmptyError videoId ''InnerTube API''), sent''))"
proof -
  have html: "retrieveVideoId videoId = Inr ident
        \<and> fetch P sent (watch_request ident config) = Some page
        \<and> 1 < length (split (content page) CAPTIONS_MARKER)
        \<and> processTranscriptFromCaptions P (html_captions P (split (content page) CAPTIONS_MARKER))
              videoId config (sent @ [watch_request ident config]) = (Inr [], sent')
      \<longrightarrow> fetchTranscriptWithHtmlScraping P videoId config sent
            = (Inl (YoutubeTranscriptEmptyError videoId ''HTML scraping''), sent')"
    by (simp add: fetchTranscriptWithHtmlScraping_def Let_def nonempty_or_empty)
  have inner: "retrieveVideoId videoId = Inr ident
        \<and> fetch P sent (innertube_request ident config) = Some api
        \<and> innertube_captions P api = Inr captions
        \<and> processTranscriptFromCaptions P captions videoId config
              (sent @ [innertube_request ident config]) = (Inr [], sent'')
      \<longrightarrow> fetchTranscriptWithInnerTube P videoId config sent
            = (Inl (YoutubeTranscriptEmptyError videoId ''InnerTube API''), sent'')"
    by (simp add: fetchTranscriptWithInnerTube_def nonempty_or_empty)
  show ?thesis
    using fetchTranscript_not_empty html_not_empty innertube_not_empty html inner by blast
qed

theorem fetchTranscript_never_empty_witness:
  "fetchTranscriptWithHtmlScraping
     (example_platform example_page example_api (map_of [(''urlA'', []), (''urlC'', [])]))
     example_id None []
   = (Inl (YoutubeTranscriptEmptyError example_id ''HTML scraping''),
      [watch_request example_id None, transcript_request (Some (JStr ''urlA'')) None])
   \<and> fetchTranscriptWithInnerTube
     (example_platform example_page example_api (map_of [(''urlA'', []), (''urlC'', [])]))
     example_id None [watch_request example_id None, transcript_request (Some (JStr ''urlA'')) None]
   = (Inl (YoutubeTranscriptEmptyError example_id ''InnerTube API''),
      [watch_request example_id None, transcript_request (Some (JStr ''urlA'')) None,
       innertube_request example_id None, transcript_request (Some (JStr ''urlC'')) None])
   \<and> fst (fetchTranscript
     (example_platform example_page example_api (map_of [(''urlA'', []), (''urlC'', [])]))
     example_id None []) \<noteq> Inr []"
proof -
  let ?P = "example_platform example_page example_api (map_of [(''urlA'', []), (''urlC'', [])])"
  let ?s1 = "[watch_request example_id None, transcript_request (Some (JStr ''urlA'')) None]"
  let ?s2 = "?s1 @ [innertube_request example_id None, transcript_request (Some (JStr ''urlC'')) None]"
  have a: "retrieveVideoId example_id = Inr example_id" by code_simp
  have b: "fetch ?P [] (watch_request example_id None) = Some \<lparr>ok = True, content = example_page\<rparr>"
    by code_simp
  have c: "1 < length (split (content \<lparr>ok = True, content = example_page\<rparr>) CAPTIONS_MARKER)"
    by code_simp
  have d: "processTranscriptFromCaptions ?P
      (html_captions ?P (split (content \<lparr>ok = True, content = example_page\<rparr>) CAPTIONS_MARKER))
      example_id None ([] @ [watch_request example_id None]) = (Inr [], ?s1)"
    by code_simp
  have e: "fetch ?P ?s1 (innertube_request example_id None) = Some \<lparr>ok = True, content = example_api\<rparr>"
    by code_simp
  have f: "innertube_captions ?P \<lparr>ok = True, content = example_api\<rparr>
     = Inr (Some (example_renderer ''urlC'' ''urlD''))"
    by code_simp
  have g: "processTranscriptFromCaptions ?P (Some (example_renderer ''urlC'' ''urlD'')) example_id None
     (?s1 @ [innertube_request example_id None]) = (Inr [], ?s2)"
    by code_simp
  note t1 = fetchTranscript_never_empty [of ?P example_id None "[]" example_id
      "\<lparr>ok = True, content = example_page\<rparr>" ?s1]
  note t2 = fetchTranscript_never_empty [of ?P example_id None ?s1 example_id _ _ 
      "\<lparr>ok = True, content = example_api\<rparr>" "Some (example_renderer ''urlC'' ''urlD'')" ?s2]
  from t1 a b c d have h1: "fetchTranscriptWithHtmlScraping ?P example_id None []
      = (Inl (YoutubeTranscriptEmptyError example_id ''HTML scraping''), ?s1)" by blast
  from t2 a e f g have h2: "fetchTranscriptWithInnerTube ?P example_id None ?s1
      = (Inl (YoutubeTranscriptEmptyError example_id ''InnerTube API''), ?s2)" by blast
  from t1 have h3: "fst (fetchTranscript ?P example_id None []) \<noteq> Inr []" by blast
  show ?thesis using h1 h2 h3 by simp
qed

subsection \<open>The order of the two strategies\<close>

lemma retrieveVideoId_error:
  "retrieveVideoId videoId = Inl e \<Longrightarrow> \<not> is_EmptyError e"
  by (auto simp: retrieveVideoId_def split: if_splits option.splits)

lemma innertube_sent:
  assumes "retrieveVideoId videoId = Inr ident"
  shows "\<exists>rest. snd (fetchTranscriptWithInnerTube P videoId config sent)
           = sent @ innertube_request ident config # rest"
proof (cases "fetch P sent (innertube_request ident config)")
  case None
  then show ?thesis using assms by (simp add: fetchTranscriptWithInnerTube_def)
next
  case (Some api)
  show ?thesis
  proof (cases "innertube_captions P api")
    case (Inl e)
    then show ?thesis using assms Some by (simp add: fetchTranscriptWithInnerTube_def)
  next
    case (Inr captions)
    obtain r1 s1 where p: "processTranscriptFromCaptions P captions videoId config
        (sent @ [innertube_request ident config]) = (r1, s1)"
      by (cases "processTranscriptFromCaptions P captions videoId config
        (sent @ [innertube_request ident config])")
    have "snd (fetchTranscriptWithInnerTube P videoId config sent) = s1"
      using assms Some Inr p
        nonempty_or_sent [of "YoutubeTranscriptEmptyError videoId ''InnerTube API''" "(r1, s1)"]
      by (simp add: fetchTranscriptWithInnerTube_def)
    then show ?thesis using process_sent [OF p] by auto
  qed
qed

lemma html_empty_resolved:
  assumes "fetchTranscriptWithHtmlScraping P videoId config sent = (Inl e, sent')"
    and "is_EmptyError e"
  shows "\<exists>ident. retrieveVideoId videoId = Inr ident"
  using html_sent [OF assms(1)] assms(2) retrieveVideoId_error by auto

lemma html_first_request:
  assumes "fetchTranscriptWithHtmlScraping P videoId config sent = (r, sent')"
    and "retrieveVideoId videoId = Inr ident"
  shows "\<exists>rest. sent' = sent @ watch_request ident config # rest"
  using html_sent [OF assms(1)] assms(2) by auto

text \<open>
  C1. \<open>fetchTranscript\<close> runs the HTML-scrape strategy first. If that strategy returns, its
  result is the result of the call; if it fails with \<open>YoutubeTranscriptEmptyError\<close>, the
  InnerTube strategy runs next and its outcome, result or error, is the outcome of the call;
  any other error is the outcome of the call. The request of the InnerTube strategy, the only
  \<open>POST\<close>, is sent if and only if the HTML-scrape strategy failed with
  \<open>YoutubeTranscriptEmptyError\<close>, and the first request of a call is the one for the watch page.
\<close>

theorem fetchTranscript_fallback:
  assumes "fetchTranscriptWithHtmlScraping P videoId config sent = (r, sent')"
  shows "fetchTranscript P videoId config sent =
           (case r of
              Inr ts \<Rightarrow> (Inr ts, sent')
            | Inl e \<Rightarrow>
                if is_EmptyError e then fetchTranscriptWithInnerTube P videoId config sent'
                else (Inl e, sent'))
     \<and> ((\<exists>q \<in> set (drop (length sent) (snd (fetchTranscript P videoId config sent))). method q = POST)
          = (\<exists>e. r = Inl e \<and> is_EmptyError e))
     \<and> (\<forall>ident. retrieveVideoId videoId = Inr ident \<longrightarrow>
          (\<exists>rest. snd (fetchTranscript P videoId config sent)
             = sent @ watch_request ident config # rest))
     \<and> (\<forall>ident e. r = Inl e \<and> is_EmptyError e \<and> retrieveVideoId videoId = Inr ident \<longrightarrow>
          (\<exists>rest. snd (fetchTranscript P videoId config sent)
             = sent' @ innertube_request ident config # rest))"
proof -
  have eq: "fetchTranscript P videoId config sent =
           (case r of
              Inr ts \<Rightarrow> (Inr ts, sent')
            | Inl e \<Rightarrow>
                if is_EmptyError e then fetchTranscriptWithInnerTube P videoId config sent'
                else (Inl e, sent'))"
    using assms by (simp add: fetchTranscript_def split: sum.splits)
  have get: "\<forall>q \<in> set (drop (length sent) sent'). method q = GET"
    by (rule html_only_get [OF assms])
  have fallback: "\<exists>rest. snd (fetchTranscript P videoId config sent)
             = sent' @ innertube_request ident config # rest"
    if "r = Inl e" "is_EmptyError e" "retrieveVideoId videoId = Inr ident" for e ident
    using that eq innertube_sent [OF that(3), of P config sent'] by simp
  have ext: "\<exists>rest. sent' = sent @ rest"
    using html_sent [OF assms] by auto
  have post: "(\<exists>q \<in> set (drop (length sent) (snd (fetchTranscript P videoId config sent))). method q = POST)
          = (\<exists>e. r = Inl e \<and> is_EmptyError e)"
  proof (cases "\<exists>e. r = Inl e \<and> is_EmptyError e")
    case True
    then obtain e where e: "r = Inl e" "is_EmptyError e" by blast
    obtain ident where i: "retrieveVideoId videoId = Inr ident"
      using html_empty_resolved assms e by blast
    obtain rest where rest: "snd (fetchTranscript P videoId config sent)
             = sent' @ innertube_request ident config # rest"
      using fallback [OF e i] by blast
    obtain mid where mid: "sent' = sent @ mid" using ext by blast
    have "innertube_request ident config
        \<in> set (drop (length sent) (snd (fetchTranscript P videoId config sent)))"
      using rest mid by simp
    then show ?thesis using True method_innertube_request by blast
  next
    case False
    then have "snd (fetchTranscript P videoId config sent) = sent'"
      using eq by (auto split: sum.splits)
    then show ?thesis using False get by auto
  qed
  have first: "\<exists>rest. snd (fetchTranscript P videoId config sent)
             = sent @ watch_request ident config # rest"
    if i: "retrieveVideoId videoId = Inr ident" for ident
  proof -
    obtain mid where mid: "sent' = sent @ watch_request ident config # mid"
      using html_first_request [OF assms i] by blast
    show ?thesis
    proof (cases "\<exists>e. r = Inl e \<and> is_EmptyError e")
      case True
      then obtain e where e: "r = Inl e" "is_EmptyError e" by blast
      then show ?thesis using fallback [OF e i] mid by auto
    next
      case False
      then have "snd (fetchTranscript P videoId config sent) = sent'"
        using eq by (auto split: sum.splits)
      then show ?thesis using mid by simp
    qed
  qed
  show ?thesis using eq post first fallback by blast
qed

theorem fetchTranscript_fallback_witness:
  "fetchTranscriptWithHtmlScraping
     (example_platform example_page example_api (map_of [(''urlA'', []), (''urlC'', example_body)]))
     example_id None []
   = (Inl (YoutubeTranscriptEmptyError example_id ''HTML scraping''),
      [watch_request example_id None, transcript_request (Some (JStr ''urlA'')) None])
   \<and> fetchTranscript
     (example_platform example_page example_api (map_of [(''urlA'', []), (''urlC'', example_body)]))
     example_id None []
   = fetchTranscriptWithInnerTube
     (example_platform example_page example_api (map_of [(''urlA'', []), (''urlC'', example_body)]))
     example_id None [watch_request example_id None, transcript_request (Some (JStr ''urlA'')) None]
   \<and> fetchTranscriptWithHtmlScraping (example_platform ''hello'' example_api Map.empty) example_id None []
   = (Inl (YoutubeTranscriptVideoUnavailableError example_id), [watch_request example_id None])
   \<and> fetchTranscript (example_platform ''hello'' example_api Map.empty) example_id None []
   = (Inl (YoutubeTranscriptVideoUnavailableError example_id), [watch_request example_id None])"
proof -
  let ?P = "example_platform example_page example_api (map_of [(''urlA'', []), (''urlC'', example_body)])"
  let ?s1 = "[watch_request example_id None, transcript_request (Some (JStr ''urlA'')) None]"
  let ?Q = "example_platform ''hello'' example_api Map.empty"
  have a: "fetchTranscriptWithHtmlScraping ?P example_id None []
     = (Inl (YoutubeTranscriptEmptyError example_id ''HTML scraping''), ?s1)"
    by code_simp
  have b: "fetchTranscriptWithHtmlScraping ?Q example_id None []
     = (Inl (YoutubeTranscriptVideoUnavailableError example_id), [watch_request example_id None])"
    by code_simp
  show ?thesis
    using a b fetchTranscript_fallback [OF a] fetchTranscript_fallback [OF b] by simp
qed

subsection \<open>The classification of a watch page without captions\<close>

lemma read_prop_error: "read_prop v key = Inl e \<Longrightarrow> e = RuntimeError TypeError"
  by (cases "(v, key)" rule: read_prop.cases) auto

lemma read_index0_error: "read_index0 v = Inl e \<Longrightarrow> e = RuntimeError TypeError"
  by (cases v rule: read_index0.cases) auto

lemma as_array_error: "as_array v = Inl e \<Longrightarrow> e = RuntimeError TypeError"
  by (cases v rule: as_array.cases) auto

lemma in_op_error: "in_op key v = Inl e \<Longrightarrow> e = RuntimeError TypeError"
  by (cases "(key, v)" rule: in_op.cases) auto

lemma array_some_error:
  "array_some f xs = Inl e \<Longrightarrow> \<exists>x \<in> set xs. f x = Inl e"
  by (induction xs) (auto split: sum.splits if_splits)

lemma array_find_error:
  "array_find f xs = Inl e \<Longrightarrow> \<exists>x \<in> set xs. f x = Inl e"
  by (induction xs) (auto split: sum.splits if_splits)

lemma array_map_error:
  "array_map f xs = Inl e \<Longrightarrow> \<exists>x \<in> set xs. f x = Inl e"
  by (induction xs) (auto split: sum.splits if_splits)

lemma languageCode_is_error: "languageCode_is l t = Inl e \<Longrightarrow> e = RuntimeError TypeError"
  by (auto simp: languageCode_is_def split: sum.splits dest: read_prop_error)

lemma languageCode_of_error: "languageCode_of t = Inl e \<Longrightarrow> e = RuntimeError TypeError"
  by (auto simp: languageCode_of_def dest: read_prop_error)

lemma check_language_error:
  "check_language captions videoId config = Inl e \<Longrightarrow>
     e = RuntimeError TypeError \<or>
     (\<exists>l codes. e = YoutubeTranscriptNotAvailableLanguageError l codes videoId)"
  by (auto simp: check_language_def split: option.splits if_splits sum.splits
      dest!: read_prop_error as_array_error array_some_error array_map_error
        languageCode_is_error languageCode_of_error)

lemma selected_track_error:
  "selected_track captions config = Inl e \<Longrightarrow> e = RuntimeError TypeError"
  by (auto simp: selected_track_def split: sum.splits if_splits
      dest!: read_prop_error as_array_error array_find_error read_index0_error
        languageCode_is_error)

lemma transcriptURL_error:
  "transcriptURL captions config = Inl e \<Longrightarrow> e = RuntimeError TypeError"
  by (auto simp: transcriptURL_def split: sum.splits
      dest!: selected_track_error read_prop_error)

lemma segment_lang_error:
  "segment_lang captions config = Inl e \<Longrightarrow> e = RuntimeError TypeError"
  by (auto simp: segment_lang_def split: option.splits sum.splits
      dest!: read_prop_error read_index0_error)

lemma segments_error:
  "segments captions config b = Inl e \<Longrightarrow> e = RuntimeError TypeError"
  by (auto simp: segments_def Let_def split: if_splits sum.splits dest!: segment_lang_error)

lemma process_error:
  assumes "processTranscriptFromCaptions P captions videoId config sent = (Inl e, sent')"
  shows "e = YoutubeTranscriptDisabledError videoId
     \<or> e = YoutubeTranscriptNotAvailableError videoId
     \<or> (\<exists>l codes. e = YoutubeTranscriptNotAvailableLanguageError l codes videoId)
     \<or> (\<exists>x. e = RuntimeError x)"
  using assms
  by (auto simp: processTranscriptFromCaptions_def
      split: if_splits sum.splits option.splits
      dest!: in_op_error check_language_error transcriptURL_error segments_error)

lemma nonempty_or_error:
  "nonempty_or e0 p = (Inl e, sent') \<Longrightarrow> e = e0 \<or> (\<exists>s. p = (Inl e, s))"
  by (auto simp: nonempty_or_def split: prod.splits sum.splits if_splits)

text \<open>
  C3. In the HTML-scrape strategy the body of the watch page is split on the captions marker
  first. The split gives at most one part exactly when the body does not contain the marker,
  and only then is a failure classified: \<open>YoutubeTranscriptTooManyRequestError\<close> if the body
  contains the CAPTCHA marker, otherwise \<open>YoutubeTranscriptVideoUnavailableError\<close> if it lacks
  the playability-status marker, otherwise \<open>YoutubeTranscriptDisabledError\<close>. A body with the
  CAPTCHA marker and without the captions marker always gives
  \<open>YoutubeTranscriptTooManyRequestError\<close>. With two parts or more the strategy goes on to the
  processor and fails with neither of the first two errors.
\<close>

theorem html_failure_classification:
  assumes "retrieveVideoId videoId = Inr ident"
    and "fetch P sent (watch_request ident config) = Some page"
  shows "(length (split (content page) CAPTIONS_MARKER) \<le> 1)
           = (\<not> includes (content page) CAPTIONS_MARKER)
     \<and> (length (split (content page) CAPTIONS_MARKER) \<le> 1 \<longrightarrow>
          fetchTranscriptWithHtmlScraping P videoId config sent =
            (Inl (if includes (content page) RECAPTCHA_MARKER then
                    YoutubeTranscriptTooManyRequestError
                  else if \<not> includes (content page) PLAYABILITY_MARKER then
                    YoutubeTranscriptVideoUnavailableError videoId
                  else YoutubeTranscriptDisabledError videoId),
             sent @ [watch_request ident config]))
     \<and> (includes (content page) RECAPTCHA_MARKER \<and> \<not> includes (content page) CAPTIONS_MARKER \<longrightarrow>
          fetchTranscriptWithHtmlScraping P videoId config sent =
            (Inl YoutubeTranscriptTooManyRequestError, sent @ [watch_request ident config]))
     \<and> (1 < length (split (content page) CAPTIONS_MARKER) \<longrightarrow>
          fetchTranscriptWithHtmlScraping P videoId config sent =
            nonempty_or (YoutubeTranscriptEmptyError videoId ''HTML scraping'')
              (processTranscriptFromCaptions P
                 (html_captions P (split (content page) CAPTIONS_MARKER))
                 videoId config (sent @ [watch_request ident config]))
          \<and> fst (fetchTranscriptWithHtmlScraping P videoId config sent)
               \<noteq> Inl YoutubeTranscriptTooManyRequestError
          \<and> fst (fetchTranscriptWithHtmlScraping P videoId config sent)
               \<noteq> Inl (YoutubeTranscriptVideoUnavailableError videoId))"
proof -
  have iff: "(length (split (content page) CAPTIONS_MARKER) \<le> 1)
           = (\<not> includes (content page) CAPTIONS_MARKER)"
    by (rule split_length_le1 [OF CAPTIONS_MARKER_nonempty])
  have classify: "fetchTranscriptWithHtmlScraping P videoId config sent =
            (Inl (classify_failure (content page) videoId), sent @ [watch_request ident config])"
    if "length (split (content page) CAPTIONS_MARKER) \<le> 1"
    using assms that by (simp add: fetchTranscriptWithHtmlScraping_def Let_def)
  have continue: "fetchTranscriptWithHtmlScraping P videoId config sent =
            nonempty_or (YoutubeTranscriptEmptyError videoId ''HTML scraping'')
              (processTranscriptFromCaptions P
                 (html_captions P (split (content page) CAPTIONS_MARKER))
                 videoId config (sent @ [watch_request ident config]))"
    if "1 < length (split (content page) CAPTIONS_MARKER)"
    using assms that by (simp add: fetchTranscriptWithHtmlScraping_def Let_def)
  have other: "fst (fetchTranscriptWithHtmlScraping P videoId config sent) \<noteq> Inl e"
    if h1: "1 < length (split (content page) CAPTIONS_MARKER)"
      and h2: "e = YoutubeTranscriptTooManyRequestError \<or> e = YoutubeTranscriptVideoUnavailableError videoId"
    for e
  proof
    assume "fst (fetchTranscriptWithHtmlScraping P videoId config sent) = Inl e"
    then obtain s where "nonempty_or (YoutubeTranscriptEmptyError videoId ''HTML scraping'')
              (processTranscriptFromCaptions P
                 (html_captions P (split (content page) CAPTIONS_MARKER))
                 videoId config (sent @ [watch_request ident config])) = (Inl e, s)"
      using continue [OF h1] by (metis prod.collapse)
    then have "e = YoutubeTranscriptEmptyError videoId ''HTML scraping''
       \<or> (\<exists>s. processTranscriptFromCaptions P
                 (html_captions P (split (content page) CAPTIONS_MARKER))
                 videoId config (sent @ [watch_request ident config]) = (Inl e, s))"
      by (rule nonempty_or_error)
    then show False using h2 process_error by fastforce
  qed
  show ?thesis
    using iff classify continue other by (simp add: classify_failure_def)
qed

theorem html_failure_classification_witness:
  "fetchTranscriptWithHtmlScraping
     (example_platform (''<html>'' @ RECAPTCHA_MARKER) example_api Map.empty) example_id None []
   = (Inl YoutubeTranscriptTooManyRequestError, [watch_request example_id None])
   \<and> fetchTranscriptWithHtmlScraping
     (example_platform (''<html>'' @ PLAYABILITY_MARKER) example_api Map.empty) example_id None []
   = (Inl (YoutubeTranscriptDisabledError example_id), [watch_request example_id None])
   \<and> fst (fetchTranscriptWithHtmlScraping
     (example_platform (RECAPTCHA_MARKER @ example_page) example_api (map_of [(''urlA'', example_body)]))
     example_id None []) \<noteq> Inl YoutubeTranscriptTooManyRequestError"
proof -
  let ?P = "example_platform (''<html>'' @ RECAPTCHA_MARKER) example_api Map.empty"
  let ?Q = "example_platform (''<html>'' @ PLAYABILITY_MARKER) example_api Map.empty"
  let ?R = "example_platform (RECAPTCHA_MARKER @ example_page) example_api (map_of [(''urlA'', example_body)])"
  have i: "retrieveVideoId example_id = Inr example_id" by code_simp
  have p: "fetch ?P [] (watch_request example_id None)
      = Some \<lparr>ok = True, content = ''<html>'' @ RECAPTCHA_MARKER\<rparr>" by code_simp
  have q: "fetch ?Q [] (watch_request example_id None)
      = Some \<lparr>ok = True, content = ''<html>'' @ PLAYABILITY_MARKER\<rparr>" by code_simp
  have r: "fetch ?R [] (watch_request example_id None)
      = Some \<lparr>ok = True, content = RECAPTCHA_MARKER @ example_page\<rparr>" by code_simp
  let ?p = "\<lparr>ok = True, content = ''<html>'' @ RECAPTCHA_MARKER\<rparr>"
  let ?q = "\<lparr>ok = True, content = ''<html>'' @ PLAYABILITY_MARKER\<rparr>"
  let ?r = "\<lparr>ok = True, content = RECAPTCHA_MARKER @ example_page\<rparr>"
  have p1: "includes (content ?p) RECAPTCHA_MARKER" by code_simp
  have p2: "\<not> includes (content ?p) CAPTIONS_MARKER" by code_simp
  have q1: "\<not> includes (content ?q) RECAPTCHA_MARKER" by code_simp
  have q2: "includes (content ?q) PLAYABILITY_MARKER" by code_simp
  have q3: "length (split (content ?q) CAPTIONS_MARKER) \<le> 1" by code_simp
  have r1: "1 < length (split (content ?r) CAPTIONS_MARKER)" by code_simp
  have A: "fetchTranscriptWithHtmlScraping ?P example_id None []
     = (Inl YoutubeTranscriptTooManyRequestError, [] @ [watch_request example_id None])"
    using html_failure_classification [OF i p] p1 p2 by blast
  have B: "fetchTranscriptWithHtmlScraping ?Q example_id None []
     = (Inl (YoutubeTranscriptDisabledError example_id), [] @ [watch_request example_id None])"
    using html_failure_classification [OF i q] q1 q2 q3 by presburger
  have C: "fst (fetchTranscriptWithHtmlScraping ?R example_id None [])
     \<noteq> Inl YoutubeTranscriptTooManyRequestError"
    using html_failure_classification [OF i r] r1 by blast
  show ?thesis using A B C by simp
qed

subsection \<open>An answer of the player API without captions\<close>

lemma get_prop_not_object: "\<forall>kvs. v \<noteq> JObj kvs \<Longrightarrow> get_prop v key = None"
  by (cases v) auto

text \<open>
  C9. In the InnerTube strategy, when the parsed answer of the API has no \<open>captions\<close>
  property, in particular when it is not an object, the destructuring throws a \<open>TypeError\<close>,
  which is not a \<open>YoutubeTranscriptError\<close>. So there is a platform and an input for which the
  HTML-scrape strategy fails with \<open>YoutubeTranscriptEmptyError\<close> and the call of
  \<open>fetchTranscript\<close> fails with that \<open>TypeError\<close>.
\<close>

theorem innertube_missing_captions:
  "(retrieveVideoId videoId = Inr ident
      \<and> fetch P sent (innertube_request ident config) = Some api
      \<and> JSON_parse P (content api) = Some v
      \<and> (get_prop v ''captions'' = None \<or> (\<forall>kvs. v \<noteq> JObj kvs))
    \<longrightarrow> fetchTranscriptWithInnerTube P videoId config sent
          = (Inl (RuntimeError TypeError), sent @ [innertube_request ident config])
        \<and> \<not> is_YoutubeTranscriptError (RuntimeError TypeError))
   \<and> (\<exists>P videoId config e sent'.
         fetchTranscriptWithHtmlScraping P videoId config [] = (Inl e, sent')
       \<and> is_EmptyError e
       \<and> fst (fetchTranscript P videoId config []) = Inl (RuntimeError TypeError)
       \<and> \<not> is_YoutubeTranscriptError (RuntimeError TypeError))"
proof -
  have a: "fetchTranscriptWithInnerTube P videoId config sent
          = (Inl (RuntimeError TypeError), sent @ [innertube_request ident config])"
    if "retrieveVideoId videoId = Inr ident"
      and "fetch P sent (innertube_request ident config) = Some api"
      and "JSON_parse P (content api) = Some v"
      and "get_prop v ''captions'' = None \<or> (\<forall>kvs. v \<noteq> JObj kvs)"
  proof -
    have "get_prop v ''captions'' = None" using that(4) get_prop_not_object by blast
    then have "innertube_captions P api = Inl (RuntimeError TypeError)"
      using that(3) by (cases v) (simp_all add: innertube_captions_def)
    then show ?thesis using that(1,2) by (simp add: fetchTranscriptWithInnerTube_def)
  qed
  let ?P = "example_platform example_page ''{}'' (map_of [(''urlA'', [])])"
  have b: "fetchTranscriptWithHtmlScraping ?P example_id None []
     = (Inl (YoutubeTranscriptEmptyError example_id ''HTML scraping''),
        [watch_request example_id None, transcript_request (Some (JStr ''urlA'')) None])"
    by code_simp
  have c: "fst (fetchTranscript ?P example_id None []) = Inl (RuntimeError TypeError)"
    by code_simp
  have "\<exists>P videoId config e sent'.
         fetchTranscriptWithHtmlScraping P videoId config [] = (Inl e, sent')
       \<and> is_EmptyError e
       \<and> fst (fetchTranscript P videoId config []) = Inl (RuntimeError TypeError)
       \<and> \<not> is_YoutubeTranscriptError (RuntimeError TypeError)"
    using b c by (intro exI [of _ ?P] exI [of _ example_id] exI [of _ None]
        exI [of _ "YoutubeTranscriptEmptyError example_id ''HTML scraping''"]
        exI [of _ "[watch_request example_id None, transcript_request (Some (JStr ''urlA'')) None]"]) simp
  then show ?thesis using a by simp
qed

theorem innertube_missing_captions_witness:
  "fetchTranscriptWithInnerTube (example_platform example_page ''{}'' (map_of [(''urlA'', [])]))
     example_id None [watch_request example_id None, transcript_request (Some (JStr ''urlA'')) None]
   = (Inl (RuntimeError TypeError),
      [watch_request example_id None, transcript_request (Some (JStr ''urlA'')) None,
       innertube_request example_id None])"
proof -
  let ?P = "example_platform example_page ''{}'' (map_of [(''urlA'', [])])"
  let ?s = "[watch_request example_id None, transcript_request (Some (JStr ''urlA'')) None]"
  have i: "retrieveVideoId example_id = Inr example_id" by code_simp
  have f: "fetch ?P ?s (innertube_request example_id None) = Some \<lparr>ok = True, content = ''{}''\<rparr>"
    by code_simp
  have j: "JSON_parse ?P (content \<lparr>ok = True, content = ''{}''\<rparr>) = Some (JObj [])"
    by code_simp
  have g: "get_prop (JObj []) ''captions'' = None" by simp
  have "fetchTranscriptWithInnerTube ?P example_id None ?s
     = (Inl (RuntimeError TypeError), ?s @ [innertube_request example_id None])"
    using innertube_missing_captions [of example_id example_id ?P ?s None
        "\<lparr>ok = True, content = ''{}''\<rparr>" "JObj []"] i f j g
    by blast
  then show ?thesis by simp
qed

subsection \<open>A requested language without a track\<close>

lemma includes_iff: "includes s sub = (\<exists>a b. s = a @ sub @ b)"
proof (induction s)
  case Nil
  then show ?case by auto
next
  case (Cons c cs)
  show ?case
  proof
    assume "includes (c # cs) sub"
    then consider "prefix sub (c # cs)" | "includes cs sub" by auto
    then show "\<exists>a b. c # cs = a @ sub @ b"
    proof cases
      case 1
      then obtain b where "c # cs = sub @ b" by (auto simp: prefix_def)
      then have "c # cs = [] @ sub @ b" by simp
      then show ?thesis by blast
    next
      case 2
      then obtain a b where "cs = a @ sub @ b" using Cons by blast
      then have "c # cs = (c # a) @ sub @ b" by simp
      then show ?thesis by blast
    qed
  next
    assume "\<exists>a b. c # cs = a @ sub @ b"
    then obtain a b where ab: "c # cs = a @ sub @ b" by blast
    show "includes (c # cs) sub"
    proof (cases a)
      case Nil
      then have "prefix sub (c # cs)" using ab by (simp add: prefix_def)
      then show ?thesis by simp
    next
      case (Cons x a')
      then have "cs = a' @ sub @ b" using ab by simp
      then have "includes cs sub" using Cons.IH by blast
      then show ?thesis by simp
    qed
  qed
qed

lemma join_includes: "x \<in> set xs \<Longrightarrow> \<exists>a b. join xs sep = a @ x @ b"
proof (induction xs sep rule: join.induct)
  case (1 sep)
  then show ?case by simp
next
  case (2 y sep)
  then have "join [y] sep = [] @ x @ []" by simp
  then show ?case by blast
next
  case (3 y z zs sep)
  show ?case
  proof (cases "x = y")
    case True
    then have "join (y # z # zs) sep = [] @ x @ (sep @ join (z # zs) sep)" by simp
    then show ?thesis by blast
  next
    case False
    then have "x \<in> set (z # zs)" using 3 by simp
    then obtain a b where "join (z # zs) sep = a @ x @ b" using 3 by blast
    then have "join (y # z # zs) sep = (y @ sep @ a) @ x @ b" by simp
    then show ?thesis by blast
  qed
qed

lemma read_prop_value: "v \<noteq> JNull \<Longrightarrow> read_prop (Some v) key = Inr (get_prop v key)"
  by (cases v) auto

lemma array_some_none:
  "\<forall>x \<in> set xs. f x = Inr False \<Longrightarrow> array_some f xs = Inr False"
  by (induction xs) auto

lemma array_map_all:
  "\<forall>x \<in> set xs. f x = Inr (g x) \<Longrightarrow> array_map f xs = Inr (map g xs)"
  by (induction xs) auto

lemma lang_given_iff: "lang_given config = (\<exists>l. config_lang config = Some l \<and> l \<noteq> [])"
  by (cases "config_lang config") (auto simp: lang_given_def)

lemma check_language_missing:
  assumes "config_lang config = Some l" and "l \<noteq> []"
    and "map_of kvs ''captionTracks'' = Some (JArr ts)"
    and "JNull \<notin> set ts"
    and "\<forall>t \<in> set ts. get_prop t ''languageCode'' \<noteq> Some (JStr l)"
  shows "check_language (Some (JObj kvs)) videoId config =
     Inl (YoutubeTranscriptNotAvailableLanguageError l
            (map (\<lambda>t. get_prop t ''languageCode'') ts) videoId)"
proof -
  have nn: "t \<noteq> JNull" if "t \<in> set ts" for t using that assms(4) by auto
  have "\<forall>t \<in> set ts. languageCode_is (config_lang config) t = Inr False"
    using assms(1,5) nn by (simp add: languageCode_is_def read_prop_value)
  then have s: "array_some (languageCode_is (config_lang config)) ts = Inr False"
    by (rule array_some_none)
  have "\<forall>t \<in> set ts. languageCode_of t = Inr (get_prop t ''languageCode'')"
    using nn by (simp add: languageCode_of_def read_prop_value)
  then have m: "array_map languageCode_of ts = Inr (map (\<lambda>t. get_prop t ''languageCode'') ts)"
    by (rule array_map_all)
  have g: "lang_given config" using assms(1,2) by (simp add: lang_given_iff)
  show ?thesis using assms(1,3) g s m by (simp add: check_language_def)
qed

text \<open>
  C7. For a captions structure whose \<open>captionTracks\<close> is a list of tracks, none of them
  \<open>null\<close>: if a language is requested and no track has it as its \<open>languageCode\<close>, the processor
  fails with \<open>YoutubeTranscriptNotAvailableLanguageError\<close>, before any request, and the message
  of the error contains the \<open>languageCode\<close> of every track.
\<close>

theorem language_not_available:
  assumes "config_lang config = Some l" and "l \<noteq> []"
    and "map_of kvs ''captionTracks'' = Some (JArr ts)"
    and "JNull \<notin> set ts"
    and "\<forall>t \<in> set ts. get_prop t ''languageCode'' \<noteq> Some (JStr l)"
  shows "processTranscriptFromCaptions P (Some (JObj kvs)) videoId config sent =
           (Inl (YoutubeTranscriptNotAvailableLanguageError l
                   (map (\<lambda>t. get_prop t ''languageCode'') ts) videoId), sent)
     \<and> (\<exists>m. message ns (YoutubeTranscriptNotAvailableLanguageError l
                   (map (\<lambda>t. get_prop t ''languageCode'') ts) videoId) = Some m
           \<and> (\<forall>t \<in> set ts. \<forall>code. get_prop t ''languageCode'' = Some (JStr code)
                 \<longrightarrow> includes m code))"
proof -
  have "''captionTracks'' \<in> set (map fst kvs)"
    using assms(3) by (metis map_of_SomeD set_zip_leftD zip_map_fst_snd)
  then have p: "processTranscriptFromCaptions P (Some (JObj kvs)) videoId config sent =
           (Inl (YoutubeTranscriptNotAvailableLanguageError l
                   (map (\<lambda>t. get_prop t ''languageCode'') ts) videoId), sent)"
    using check_language_missing [OF assms] by (simp add: processTranscriptFromCaptions_def)
  let ?pre = "''No transcripts are available in '' @ l @ '' this video ('' @ videoId
        @ ''). Available languages: ''"
  let ?codes = "map (join_element ns) (map (\<lambda>t. get_prop t ''languageCode'') ts)"
  let ?m = "base_message (?pre @ join ?codes '', '')"
  have m: "message ns (YoutubeTranscriptNotAvailableLanguageError l
                   (map (\<lambda>t. get_prop t ''languageCode'') ts) videoId) = Some ?m"
    by simp
  have "includes ?m code" if "t \<in> set ts" and "get_prop t ''languageCode'' = Some (JStr code)"
    for t code
  proof -
    have "join_element ns (get_prop t ''languageCode'') = code"
      using that(2) by (simp add: join_element_def)
    then have "code \<in> set ?codes" using that(1) by force
    then obtain a b where "join ?codes '', '' = a @ code @ b" using join_includes by blast
    then have "?m = (''[YoutubeTranscript] '' @ SIREN @ '' '' @ ?pre @ a) @ code @ b"
      by (simp add: base_message_def)
    then show ?thesis unfolding includes_iff by blast
  qed
  then show ?thesis using p m by blast
qed

theorem language_not_available_witness:
  "processTranscriptFromCaptions (example_platform example_page example_api Map.empty)
     (Some (example_renderer ''urlA'' ''urlB'')) example_id
     (Some \<lparr>TranscriptConfig.lang = Some ''de''\<rparr>) []
   = (Inl (YoutubeTranscriptNotAvailableLanguageError ''de''
             [Some (JStr ''en''), Some (JStr ''fr'')] example_id), [])
   \<and> (\<exists>m. message (\<lambda>n. []) (YoutubeTranscriptNotAvailableLanguageError ''de''
             [Some (JStr ''en''), Some (JStr ''fr'')] example_id) = Some m
         \<and> includes m ''en'' \<and> includes m ''fr'')"
proof -
  let ?c = "Some \<lparr>TranscriptConfig.lang = Some ''de''\<rparr>"
  let ?ts = "[track ''en'' ''urlA'', track ''fr'' ''urlB'']"
  have a: "config_lang ?c = Some ''de''" by (simp add: config_lang_def)
  have b: "''de'' \<noteq> []" by simp
  have c: "map_of [(''captionTracks'', JArr ?ts)] ''captionTracks'' = Some (JArr ?ts)" by simp
  have d: "JNull \<notin> set ?ts" by (simp add: track_def)
  have e: "\<forall>t \<in> set ?ts. get_prop t ''languageCode'' \<noteq> Some (JStr ''de'')"
    by (simp add: track_def)
  have f: "map (\<lambda>t. get_prop t ''languageCode'') ?ts = [Some (JStr ''en''), Some (JStr ''fr'')]"
    by (simp add: track_def)
  have g: "get_prop (track ''en'' ''urlA'') ''languageCode'' = Some (JStr ''en'')"
      "get_prop (track ''fr'' ''urlB'') ''languageCode'' = Some (JStr ''fr'')"
    by (simp_all add: track_def)
  note t = language_not_available [OF a b c d e,
      of "example_platform example_page example_api Map.empty" example_id "[]" "\<lambda>n. []"]
  from t obtain m where m: "message (\<lambda>n. []) (YoutubeTranscriptNotAvailableLanguageError ''de''
        (map (\<lambda>t. get_prop t ''languageCode'') ?ts) example_id) = Some m"
      and inc: "\<forall>t \<in> set ?ts. \<forall>code. get_prop t ''languageCode'' = Some (JStr code)
                 \<longrightarrow> includes m code"
    by blast
  have "includes m ''en''" "includes m ''fr''" using inc g by auto
  then show ?thesis using t m unfolding f by (auto simp: example_renderer_def)
qed

subsection \<open>The language of the segments\<close>

lemma array_find_total:
  "\<forall>x \<in> set xs. f x = Inr (p x) \<Longrightarrow> array_find f xs = Inr (find p xs)"
  by (induction xs) auto

lemma selected_track_requested:
  assumes "config_lang config = Some l" and "l \<noteq> []"
    and "map_of kvs ''captionTracks'' = Some (JArr ts)"
    and "JNull \<notin> set ts"
  shows "selected_track (Some (JObj kvs)) config
           = Inr (find (\<lambda>t. get_prop t ''languageCode'' = Some (JStr l)) ts)"
    and "segment_lang (Some (JObj kvs)) config = Inr (Some (JStr l))"
proof -
  have nn: "t \<noteq> JNull" if "t \<in> set ts" for t using that assms(4) by auto
  have "\<forall>t \<in> set ts. languageCode_is (config_lang config) t
          = Inr (get_prop t ''languageCode'' = Some (JStr l))"
    using assms(1) nn by (simp add: languageCode_is_def read_prop_value)
  then have "array_find (languageCode_is (config_lang config)) ts
      = Inr (find (\<lambda>t. get_prop t ''languageCode'' = Some (JStr l)) ts)"
    by (rule array_find_total)
  then show "selected_track (Some (JObj kvs)) config
           = Inr (find (\<lambda>t. get_prop t ''languageCode'' = Some (JStr l)) ts)"
    using assms(1,2,3) by (simp add: selected_track_def lang_given_iff)
  show "segment_lang (Some (JObj kvs)) config = Inr (Some (JStr l))"
    using assms(1) by (simp add: segment_lang_def)
qed

lemma selected_track_default:
  assumes "config_lang config = None"
    and "map_of kvs ''captionTracks'' = Some (JArr (t # ts))"
    and "t \<noteq> JNull"
  shows "selected_track (Some (JObj kvs)) config = Inr (Some t)"
    and "segment_lang (Some (JObj kvs)) config = Inr (get_prop t ''languageCode'')"
  using assms by (simp_all add: selected_track_def segment_lang_def lang_given_iff read_prop_value)

text \<open>
  C4. With the empty string as the requested language the processor fetches the first track,
  here the English one at \<open>urlA\<close>, and every segment carries the empty string as its
  language: neither the language of a track chosen by the request nor the language of the
  first track.
\<close>

theorem empty_lang_mismatch:
  "processTranscriptFromCaptions
     (example_platform example_page example_api (map_of [(''urlA'', example_body)]))
     (Some (example_renderer ''urlA'' ''urlB'')) example_id
     (Some \<lparr>TranscriptConfig.lang = Some []\<rparr>) []
   = (Inr [\<lparr>text = ''Hello'', duration = Finite 2, offset = Finite (3 / 2), lang = Some (JStr [])\<rparr>,
           \<lparr>text = ''World'', duration = Finite 1, offset = Finite (7 / 2), lang = Some (JStr [])\<rparr>],
      [transcript_request (Some (JStr ''urlA'')) (Some \<lparr>TranscriptConfig.lang = Some []\<rparr>)])
   \<and> selected_track (Some (example_renderer ''urlA'' ''urlB'')) (Some \<lparr>TranscriptConfig.lang = Some []\<rparr>)
       = Inr (Some (track ''en'' ''urlA''))
   \<and> segment_lang (Some (example_renderer ''urlA'' ''urlB'')) (Some \<lparr>TranscriptConfig.lang = Some []\<rparr>)
       = Inr (Some (JStr []))"
  by code_simp

subsection \<open>The parsing of a timed-text body\<close>
















lemma timed_text_with_header:
  "map tl (matchAll False RE_XML_TRANSCRIPT
     (''<?xml version='' @ quoted ''1.0'' @ '' encoding='' @ quoted ''utf-8'' @ '' ?><transcript>''
      @ text_element ''0.16'' ''3.2'' ''we&amp;#39;re  no strangers '' @ ''</transcript>''))
   = [[''0.16'', ''3.2'', ''we&amp;#39;re  no strangers '']]"
  by code_simp

subsection \<open>Attribute values that are not numbers\<close>


lemma dropWhile_digit_nondigit: "dropWhile is_digit u = c # r \<Longrightarrow> \<not> is_digit c"
  by (metis dropWhile_eq_Cons_conv)

lemma not_digit_point: "\<not> is_digit CHR ''.''"
  by (simp add: is_digit_def)










subsection \<open>The identifier of the video\<close>








lemma exec_not_y:
  "to_upper c \<noteq> CHR ''Y'' \<Longrightarrow> exec_at True RE_YOUTUBE (c # cs) = None"
  by (simp add: exec_at_def RE_YOUTUBE_def canon_def to_upper_def [of "CHR ''y''"])













subsection \<open>The text handed to the JSON parser\<close>

lemma replace_none: "CHR 0x0A \<notin> set s \<Longrightarrow> replace s NEWLINE [] = s"
  by (induction s) (auto simp: NEWLINE_def)

lemma replace_first_newline:
  "CHR 0x0A \<notin> set a \<Longrightarrow> replace (a @ NEWLINE @ b) NEWLINE [] = a @ b"
  by (induction a) (auto simp: NEWLINE_def)

lemma split_from_head:
  "\<exists>h. split_from sep acc s ! 0 = rev acc @ h \<and> (s = h \<or> (\<exists>rest. s = h @ sep @ rest))"
proof (induction s arbitrary: acc)
  case Nil
  then show ?case by simp
next
  case (Cons c cs)
  show ?case
  proof (cases "prefix sep (c # cs)")
    case True
    then obtain rest where r: "c # cs = [] @ sep @ rest" by (auto simp: prefix_def)
    have "split_from sep acc (c # cs) ! 0 = rev acc @ []" using True by simp
    then show ?thesis using r by blast
  next
    case False
    obtain h where h: "split_from sep (c # acc) cs ! 0 = rev (c # acc) @ h"
      "cs = h \<or> (\<exists>rest. cs = h @ sep @ rest)" using Cons [of "c # acc"] by blast
    then have "split_from sep acc (c # cs) ! 0 = rev acc @ (c # h)
        \<and> (c # cs = c # h \<or> (\<exists>rest. c # cs = (c # h) @ sep @ rest))"
      using False by auto
    then show ?thesis by blast
  qed
qed

lemma split_head: "\<exists>h. split s sep ! 0 = h \<and> (s = h \<or> (\<exists>rest. s = h @ sep @ rest))"
  using split_from_head [of sep "[]" s] by (simp add: split_def)

lemma html_parse_failure:
  assumes "JSON_parse P (captions_json_text splittedHTML) = None"
  shows "html_captions P splittedHTML = None"
    and "processTranscriptFromCaptions P (html_captions P splittedHTML) videoId config sent
           = (Inl (YoutubeTranscriptDisabledError videoId), sent)"
  using assms by (simp_all add: html_captions_def processTranscriptFromCaptions_def)

text \<open>
  C6. Only the first newline of the fragment is removed. For the watch page
  \<^verbatim>\<open>"captions":{"a":"x\<close>, newline, \<^verbatim>\<open>y\<close>, newline, \<^verbatim>\<open>z"},"videoDetails\<close> the text handed to
  \<open>JSON.parse\<close> is \<^verbatim>\<open>{"a":"xy\<close>, newline, \<^verbatim>\<open>z"}\<close>: it still contains a newline.
\<close>

theorem second_newline_kept:
  "captions_json_text
     (split (CAPTIONS_MARKER @ ''{'' @ quoted ''a'' @ '':'' @ QUOTE @ ''x'' @ NEWLINE @ ''y'' @ NEWLINE
             @ ''z'' @ QUOTE @ ''}'' @ VIDEO_DETAILS_MARKER) CAPTIONS_MARKER)
   = ''{'' @ quoted ''a'' @ '':'' @ QUOTE @ ''xy'' @ NEWLINE @ ''z'' @ QUOTE @ ''}''
   \<and> includes
       (captions_json_text
          (split (CAPTIONS_MARKER @ ''{'' @ quoted ''a'' @ '':'' @ QUOTE @ ''x'' @ NEWLINE @ ''y''
                  @ NEWLINE @ ''z'' @ QUOTE @ ''}'' @ VIDEO_DETAILS_MARKER) CAPTIONS_MARKER))
       NEWLINE"
  by code_simp

end
